theory Spec2Isabelle
  imports Complex_Main
begin

section \<open>Numbers\<close>

text \<open>
  The toolkit computes with JavaScript numbers, which are doubles. Two models of them
  are used. In the first one a finite number is a real and arithmetic on finite numbers
  is exact: it gives what the code computes as long as no intermediate result leaves the
  range of the doubles, up to the rounding of each operation, and the sign of zero is
  not modelled. The second one, in the section on the range of the doubles, adds
  overflow and underflow. In both, the values that are not finite reals are explicit
  constructors, so that a division by zero or an explicit \<open>NaN\<close> result of the code
  is a value of the model and not an unspecified real.
\<close>

datatype number = Num real | PInf | NInf | NaN

fun nneg :: "number \<Rightarrow> number" where
  "nneg (Num a) = Num (- a)"
| "nneg PInf = NInf"
| "nneg NInf = PInf"
| "nneg NaN = NaN"

fun nadd :: "number \<Rightarrow> number \<Rightarrow> number" where
  "nadd NaN _ = NaN"
| "nadd _ NaN = NaN"
| "nadd (Num a) (Num b) = Num (a + b)"
| "nadd PInf NInf = NaN"
| "nadd NInf PInf = NaN"
| "nadd PInf _ = PInf"
| "nadd NInf _ = NInf"
| "nadd _ PInf = PInf"
| "nadd _ NInf = NInf"

definition nsub :: "number \<Rightarrow> number \<Rightarrow> number" where
  "nsub a b = nadd a (nneg b)"

fun nmul :: "number \<Rightarrow> number \<Rightarrow> number" where
  "nmul NaN _ = NaN"
| "nmul _ NaN = NaN"
| "nmul (Num a) (Num b) = Num (a * b)"
| "nmul (Num a) PInf = (if a = 0 then NaN else if 0 < a then PInf else NInf)"
| "nmul (Num a) NInf = (if a = 0 then NaN else if 0 < a then NInf else PInf)"
| "nmul PInf (Num b) = (if b = 0 then NaN else if 0 < b then PInf else NInf)"
| "nmul NInf (Num b) = (if b = 0 then NaN else if 0 < b then NInf else PInf)"
| "nmul PInf PInf = PInf"
| "nmul PInf NInf = NInf"
| "nmul NInf PInf = NInf"
| "nmul NInf NInf = PInf"

text \<open>
  Division of finite numbers is the real quotient when the divisor is not zero; a zero
  divisor gives an infinity of the sign of the dividend, and \<open>0 / 0\<close> is \<open>NaN\<close>.
\<close>

fun ndiv :: "number \<Rightarrow> number \<Rightarrow> number" where
  "ndiv NaN _ = NaN"
| "ndiv _ NaN = NaN"
| "ndiv (Num a) (Num b) =
     (if b \<noteq> 0 then Num (a / b)
      else if a = 0 then NaN else if 0 < a then PInf else NInf)"
| "ndiv (Num a) PInf = Num 0"
| "ndiv (Num a) NInf = Num 0"
| "ndiv PInf (Num b) = (if 0 \<le> b then PInf else NInf)"
| "ndiv NInf (Num b) = (if 0 \<le> b then NInf else PInf)"
| "ndiv PInf PInf = NaN"
| "ndiv PInf NInf = NaN"
| "ndiv NInf PInf = NaN"
| "ndiv NInf NInf = NaN"

text \<open>The comparison \<open>a < b\<close>: false as soon as one side is \<open>NaN\<close>.\<close>

fun nless :: "number \<Rightarrow> number \<Rightarrow> bool" where
  "nless NaN _ = False"
| "nless _ NaN = False"
| "nless (Num a) (Num b) = (a < b)"
| "nless NInf NInf = False"
| "nless NInf _ = True"
| "nless _ NInf = False"
| "nless PInf _ = False"
| "nless _ PInf = True"

text \<open>\<open>Math.min\<close> and \<open>Math.max\<close> of two arguments: \<open>NaN\<close> if one of them is.\<close>

fun Math_min :: "number \<Rightarrow> number \<Rightarrow> number" where
  "Math_min NaN _ = NaN"
| "Math_min _ NaN = NaN"
| "Math_min a b = (if nless b a then b else a)"

fun Math_max :: "number \<Rightarrow> number \<Rightarrow> number" where
  "Math_max NaN _ = NaN"
| "Math_max _ NaN = NaN"
| "Math_max a b = (if nless a b then b else a)"

section \<open>Helper.map\<close>

text \<open>
  \<open>Helper.map\<close> re-maps \<open>n\<close> from the range \<open>start1..stop1\<close> to the range
  \<open>start2..stop2\<close> and, when \<open>withinBounds\<close> is set, clamps the result to the target
  range, whichever way round its bounds are given.
\<close>

definition Helper_map ::
  "number \<Rightarrow> number \<Rightarrow> number \<Rightarrow> number \<Rightarrow> number \<Rightarrow> bool \<Rightarrow> number" where
  "Helper_map n start1 stop1 start2 stop2 withinBounds =
     (let newVal = nadd (nmul (ndiv (nsub n start1) (nsub stop1 start1))
                              (nsub stop2 start2)) start2
      in if \<not> withinBounds then newVal
         else if nless start2 stop2
           then Math_max (Math_min newVal stop2) start2
           else Math_max (Math_min newVal start2) stop2)"

section \<open>Library functions on finite numbers\<close>

text \<open>
  \<open>Math.atan2(b, a)\<close> on finite arguments is the angle in \<open>(-\<pi>, \<pi>]\<close> of the point
  \<open>(a, b)\<close>; at the origin it is 0. \<open>Math.sign\<close> is \<open>1\<close>, \<open>-1\<close> or \<open>0\<close>.
  \<open>Math.sqrt\<close> is only ever applied to a sum of squares and is the real square root;
  \<open>**\<close> with exponent 2 is the square.
\<close>

definition Math_atan2 :: "real \<Rightarrow> real \<Rightarrow> real" where
  "Math_atan2 b a =
     (if 0 < a then arctan (b / a)
      else if a < 0 then (if 0 \<le> b then arctan (b / a) + pi else arctan (b / a) - pi)
      else if 0 < b then pi / 2
      else if b < 0 then - (pi / 2)
      else 0)"

definition Math_sign :: "real \<Rightarrow> real" where
  "Math_sign a = (if 0 < a then 1 else if a < 0 then - 1 else 0)"

section \<open>Vector\<close>

text \<open>
  A vector has three components, finite numbers; this section computes with them
  exactly. A method that mutates its receiver is modelled by the function from the
  receiver's fields before the call to its fields after the call; the object store
  further down adds references, for the operations whose result is an object.
\<close>

record Vector =
  x :: real
  y :: real
  z :: real

definition new_Vector :: "real \<Rightarrow> real \<Rightarrow> real \<Rightarrow> Vector" where
  "new_Vector a b c = \<lparr>x = a, y = b, z = c\<rparr>"

text \<open>The constructor's third parameter defaults to 0.\<close>

definition new_Vector2 :: "real \<Rightarrow> real \<Rightarrow> Vector" where
  "new_Vector2 a b = new_Vector a b 0"

text \<open>
  \<open>add\<close>, \<open>sub\<close> and \<open>dot\<close> read each component of their argument through
  \<open>component || 0\<close>, so the argument may be an object on which a component is
  missing (the read gives \<open>undefined\<close>) or is \<open>NaN\<close>. Both are falsy, as the number 0
  is, and \<open>||\<close> then yields its right operand.
\<close>

datatype component = Undefined | NotANumber | Number real

record PartialVector =
  px :: component
  py :: component
  pz :: component

fun or_zero :: "component \<Rightarrow> real" where
  "or_zero Undefined = 0"
| "or_zero NotANumber = 0"
| "or_zero (Number a) = (if a = 0 then 0 else a)"

text \<open>A vector passed as an argument: all three components are present.\<close>

definition as_arg :: "Vector \<Rightarrow> PartialVector" where
  "as_arg v = \<lparr>px = Number (x v), py = Number (y v), pz = Number (z v)\<rparr>"

definition add :: "Vector \<Rightarrow> PartialVector \<Rightarrow> Vector" where
  "add this vector =
     (let t1 = this\<lparr>x := x this + or_zero (px vector)\<rparr>;
          t2 = t1\<lparr>y := y t1 + or_zero (py vector)\<rparr>
      in t2\<lparr>z := z t2 + or_zero (pz vector)\<rparr>)"

definition sub :: "Vector \<Rightarrow> PartialVector \<Rightarrow> Vector" where
  "sub this vector =
     (let t1 = this\<lparr>x := x this - or_zero (px vector)\<rparr>;
          t2 = t1\<lparr>y := y t1 - or_zero (py vector)\<rparr>
      in t2\<lparr>z := z t2 - or_zero (pz vector)\<rparr>)"

definition mult :: "Vector \<Rightarrow> real \<Rightarrow> Vector" where
  "mult this scalar =
     (let t1 = this\<lparr>x := x this * scalar\<rparr>;
          t2 = t1\<lparr>y := y t1 * scalar\<rparr>
      in t2\<lparr>z := z t2 * scalar\<rparr>)"

definition dot :: "Vector \<Rightarrow> PartialVector \<Rightarrow> real" where
  "dot this vector =
     x this * or_zero (px vector) + y this * or_zero (py vector)
       + z this * or_zero (pz vector)"

definition magnitudeSquared :: "Vector \<Rightarrow> real" where
  "magnitudeSquared this = (x this)\<^sup>2 + (y this)\<^sup>2 + (z this)\<^sup>2"

definition magnitude :: "Vector \<Rightarrow> real" where
  "magnitude this = sqrt (magnitudeSquared this)"

text \<open>
  \<open>normalise\<close> returns its receiver; here it yields the receiver's fields after the
  call. The division \<open>1 / len\<close> is only reached with \<open>len\<close> not zero.
\<close>

definition normalise :: "Vector \<Rightarrow> Vector" where
  "normalise this =
     (let len = magnitude this
      in if len \<noteq> 0 then mult this (1 / len) else this)"

definition heading :: "Vector \<Rightarrow> real" where
  "heading this = Math_atan2 (y this) (x this)"

definition setHeading :: "Vector \<Rightarrow> real \<Rightarrow> Vector" where
  "setHeading this angle =
     (let m = magnitude this;
          t1 = this\<lparr>x := m * cos angle\<rparr>
      in t1\<lparr>y := m * sin angle\<rparr>)"

definition rotate_v :: "Vector \<Rightarrow> real \<Rightarrow> Vector" where
  "rotate_v this angle =
     (let newHeading = heading this + angle;
          mag = magnitude this;
          t1 = this\<lparr>x := cos newHeading * mag\<rparr>
      in t1\<lparr>y := sin newHeading * mag\<rparr>)"

definition set_components :: "Vector \<Rightarrow> real \<Rightarrow> real \<Rightarrow> real \<Rightarrow> Vector" where
  "set_components this a b c = this\<lparr>x := a, y := b, z := c\<rparr>"

definition equals :: "Vector \<Rightarrow> Vector \<Rightarrow> bool" where
  "equals this vector \<longleftrightarrow> x this = x vector \<and> y this = y vector \<and> z this = z vector"

subsection \<open>Objects and references\<close>

text \<open>
  Vectors are objects: a variable holds a reference, and two references may name the
  same object. The store maps each reference to the fields of its object; the references
  below \<open>allocated\<close> are the ones in use and \<open>new\<close> takes the next one.
\<close>

type_synonym ref = nat

record heap =
  obj :: "ref \<Rightarrow> Vector"
  allocated :: nat

definition alloc :: "heap \<Rightarrow> Vector \<Rightarrow> ref \<times> heap" where
  "alloc h v = (allocated h, h\<lparr>obj := (obj h)(allocated h := v), allocated := Suc (allocated h)\<rparr>)"

text \<open>\<open>copy\<close> is \<open>new Vector(this.x, this.y, this.z)\<close>.\<close>

definition copy :: "heap \<Rightarrow> ref \<Rightarrow> ref \<times> heap" where
  "copy h this = alloc h (new_Vector (x (obj h this)) (y (obj h this)) (z (obj h this)))"

text \<open>
  A call of an in-place method on the object \<open>this\<close> refers to: the method, given as
  the function on the receiver's fields, replaces the fields of that object and of no
  other.
\<close>

definition invoke :: "heap \<Rightarrow> ref \<Rightarrow> (Vector \<Rightarrow> Vector) \<Rightarrow> heap" where
  "invoke h this m = h\<lparr>obj := (obj h)(this := m (obj h this))\<rparr>"

text \<open>\<open>normalise\<close> as a call: it ends with \<open>return this\<close>.\<close>

definition normalise_call :: "heap \<Rightarrow> ref \<Rightarrow> ref \<times> heap" where
  "normalise_call h this = (this, invoke h this normalise)"

text \<open>\<open>setMag\<close> is \<open>this.normalise().mult(magnitude)\<close>: \<open>mult\<close> is called on the
  object that \<open>normalise\<close> returns.\<close>

definition setMag :: "heap \<Rightarrow> ref \<Rightarrow> real \<Rightarrow> heap" where
  "setMag h this m =
     (case normalise_call h this of
        (r, h1) \<Rightarrow> invoke h1 r (\<lambda>v. mult v m))"

text \<open>
  The specification's reading of a partial argument, in its own words: a component that
  is missing counts as 0, and the argument stands for the full vector so completed.
\<close>

fun present_or_zero :: "component \<Rightarrow> real" where
  "present_or_zero (Number a) = a"
| "present_or_zero Undefined = 0"
| "present_or_zero NotANumber = 0"

definition completed :: "PartialVector \<Rightarrow> Vector" where
  "completed p = new_Vector (present_or_zero (px p)) (present_or_zero (py p)) (present_or_zero (pz p))"

text \<open>Two small stores, each holding one vector at reference 0.\<close>

definition zero_heap :: heap where
  "zero_heap = \<lparr>obj = (\<lambda>r. new_Vector 0 0 0), allocated = 1\<rparr>"

definition one_heap :: heap where
  "one_heap = \<lparr>obj = (\<lambda>r. new_Vector 1 2 3), allocated = 1\<rparr>"

section \<open>The range of the doubles\<close>

text \<open>
  The definitions above are exact. The code computes with doubles, and a square, a
  product or a quotient that leaves their range is replaced by an infinity or by zero;
  the tests \<open>len !== 0\<close> and \<open>magSqMult === 0\<close> then see that value. The
  methods that contain such a test, \<open>normalise\<close> and \<open>angleBetween\<close>, and
  \<open>rotate\<close>, which multiplies by the magnitude, are modelled a second time here, over
  \<open>number\<close> and with the range of the doubles; the suffix \<open>_d\<close> marks the
  definitions of this second model, and the exact definitions above say what its
  results are when nothing leaves the range.

  A finite result becomes \<open>+\<infinity>\<close> from \<open>2^1024 - 2^970\<close> on, the midpoint above the
  largest double, and \<open>-\<infinity>\<close> symmetrically. A product or a quotient becomes 0 when
  its absolute value is at most \<open>2^-1075\<close>, half the smallest positive double. A sum
  of two doubles that is not zero is never rounded to zero, so sums and differences only
  overflow. Between these bounds a result is kept as it is: the rounding to 53
  significant bits is not modelled.
\<close>

definition overflow_bound :: real where
  "overflow_bound = 2 ^ 1024 - 2 ^ 970"

definition underflow_bound :: real where
  "underflow_bound = 1 / 2 ^ 1075"

definition clamp_overflow :: "number \<Rightarrow> number" where
  "clamp_overflow a =
     (case a of
        Num r \<Rightarrow>
          if overflow_bound \<le> r then PInf else if r \<le> - overflow_bound then NInf else Num r
      | _ \<Rightarrow> a)"

definition clamp_range :: "number \<Rightarrow> number" where
  "clamp_range a =
     (case a of
        Num r \<Rightarrow> if \<bar>r\<bar> \<le> underflow_bound then Num 0 else clamp_overflow a
      | _ \<Rightarrow> a)"

text \<open>The operators \<open>+\<close>, \<open>-\<close>, \<open>*\<close>, \<open>/\<close> and \<open>** 2\<close> of the code.\<close>

definition dadd :: "number \<Rightarrow> number \<Rightarrow> number" where
  "dadd a b = clamp_overflow (nadd a b)"

definition dsub :: "number \<Rightarrow> number \<Rightarrow> number" where
  "dsub a b = clamp_overflow (nsub a b)"

definition dmul :: "number \<Rightarrow> number \<Rightarrow> number" where
  "dmul a b = clamp_range (nmul a b)"

definition ddiv :: "number \<Rightarrow> number \<Rightarrow> number" where
  "ddiv a b = clamp_range (ndiv a b)"

definition dsquare :: "number \<Rightarrow> number" where
  "dsquare a = dmul a a"

text \<open>
  \<open>Math.sqrt\<close>, \<open>Math.atan2\<close> and \<open>Math.sign\<close> on all numbers. The square root
  of a negative number is \<open>NaN\<close>; \<open>Math.atan2\<close> with an infinite argument is the
  limit angle.
\<close>

fun Math_sqrt_d :: "number \<Rightarrow> number" where
  "Math_sqrt_d (Num r) = (if r < 0 then NaN else Num (sqrt r))"
| "Math_sqrt_d PInf = PInf"
| "Math_sqrt_d NInf = NaN"
| "Math_sqrt_d NaN = NaN"

fun Math_atan2_d :: "number \<Rightarrow> number \<Rightarrow> number" where
  "Math_atan2_d NaN _ = NaN"
| "Math_atan2_d _ NaN = NaN"
| "Math_atan2_d (Num b) (Num a) = Num (Math_atan2 b a)"
| "Math_atan2_d (Num b) PInf = Num 0"
| "Math_atan2_d (Num b) NInf = (if 0 \<le> b then Num pi else Num (- pi))"
| "Math_atan2_d PInf (Num a) = Num (pi / 2)"
| "Math_atan2_d NInf (Num a) = Num (- (pi / 2))"
| "Math_atan2_d PInf PInf = Num (pi / 4)"
| "Math_atan2_d PInf NInf = Num (3 * pi / 4)"
| "Math_atan2_d NInf PInf = Num (- (pi / 4))"
| "Math_atan2_d NInf NInf = Num (- (3 * pi / 4))"

fun Math_sign_d :: "number \<Rightarrow> number" where
  "Math_sign_d (Num a) = Num (Math_sign a)"
| "Math_sign_d PInf = Num 1"
| "Math_sign_d NInf = Num (- 1)"
| "Math_sign_d NaN = NaN"

text \<open>\<open>a || b\<close> on numbers: \<open>b\<close> when \<open>a\<close> is \<open>NaN\<close> or zero, else \<open>a\<close>.\<close>

fun or_d :: "number \<Rightarrow> number \<Rightarrow> number" where
  "or_d NaN b = b"
| "or_d (Num a) b = (if a = 0 then b else Num a)"
| "or_d a b = a"

record Vector_d =
  x_d :: number
  y_d :: number
  z_d :: number

definition new_Vector_d :: "number \<Rightarrow> number \<Rightarrow> number \<Rightarrow> Vector_d" where
  "new_Vector_d a b c = \<lparr>x_d = a, y_d = b, z_d = c\<rparr>"

definition mult_d :: "Vector_d \<Rightarrow> number \<Rightarrow> Vector_d" where
  "mult_d this scalar =
     (let t1 = this\<lparr>x_d := dmul (x_d this) scalar\<rparr>;
          t2 = t1\<lparr>y_d := dmul (y_d t1) scalar\<rparr>
      in t2\<lparr>z_d := dmul (z_d t2) scalar\<rparr>)"

definition dot_d :: "Vector_d \<Rightarrow> Vector_d \<Rightarrow> number" where
  "dot_d this vector =
     dadd (dadd (dmul (x_d this) (or_d (x_d vector) (Num 0)))
                (dmul (y_d this) (or_d (y_d vector) (Num 0))))
          (dmul (z_d this) (or_d (z_d vector) (Num 0)))"

definition cross_d :: "Vector_d \<Rightarrow> Vector_d \<Rightarrow> Vector_d" where
  "cross_d this vector =
     (let a = dsub (dmul (y_d this) (z_d vector)) (dmul (z_d this) (y_d vector));
          b = dsub (dmul (z_d this) (x_d vector)) (dmul (x_d this) (z_d vector));
          c = dsub (dmul (x_d this) (y_d vector)) (dmul (y_d this) (x_d vector))
      in new_Vector_d a b c)"

definition magnitudeSquared_d :: "Vector_d \<Rightarrow> number" where
  "magnitudeSquared_d this =
     dadd (dadd (dsquare (x_d this)) (dsquare (y_d this))) (dsquare (z_d this))"

definition magnitude_d :: "Vector_d \<Rightarrow> number" where
  "magnitude_d this = Math_sqrt_d (magnitudeSquared_d this)"

text \<open>\<open>len !== 0\<close> holds of every number but zero, of \<open>NaN\<close> and the infinities too.\<close>

definition normalise_d :: "Vector_d \<Rightarrow> Vector_d" where
  "normalise_d this =
     (let len = magnitude_d this
      in if len \<noteq> Num 0 then mult_d this (ddiv (Num 1) len) else this)"

text \<open>
  \<open>angleBetween\<close> returns \<open>NaN\<close> when the product of the squared magnitudes is zero;
  \<open>magSqMult === 0\<close> is false of \<open>NaN\<close>. The sign of the angle is that of
  \<open>u.z || 1\<close>: of the third component of the cross product, or of 1 when that
  component is zero.
\<close>

definition angleBetween_d :: "Vector_d \<Rightarrow> Vector_d \<Rightarrow> number" where
  "angleBetween_d this vector =
     (let magSqMult = dmul (magnitudeSquared_d this) (magnitudeSquared_d vector)
      in if magSqMult = Num 0 then NaN
         else
           (let u = cross_d this vector;
                angle = dmul (Math_atan2_d (magnitude_d u) (dot_d this vector))
                             (Math_sign_d (or_d (z_d u) (Num 1)))
            in angle))"





text \<open>
  A vector of the exact model, read in the second one; and the components on which
  the squares, their sum and its root stay well inside the range of the doubles.
\<close>

definition as_double :: "Vector \<Rightarrow> Vector_d" where
  "as_double v = new_Vector_d (Num (x v)) (Num (y v)) (Num (z v))"

definition in_range :: "real \<Rightarrow> bool" where
  "in_range c \<longleftrightarrow> c = 0 \<or> (1 / 2 ^ 500 \<le> \<bar>c\<bar> \<and> \<bar>c\<bar> \<le> 2 ^ 500)"

text \<open>
  Some vectors: zero, \<open>(2^600, 0, 0)\<close>, whose components are doubles and whose
  squared magnitude is not, the two unit vectors of the first axis and the unit vector
  of the second.
\<close>

definition huge :: real where
  "huge = 2 ^ 600"

definition zero_d :: Vector_d where
  "zero_d = new_Vector_d (Num 0) (Num 0) (Num 0)"

definition big_d :: Vector_d where
  "big_d = new_Vector_d (Num huge) (Num 0) (Num 0)"

definition unit_x_d :: Vector_d where
  "unit_x_d = new_Vector_d (Num 1) (Num 0) (Num 0)"

definition unit_minus_x_d :: Vector_d where
  "unit_minus_x_d = new_Vector_d (Num (- 1)) (Num 0) (Num 0)"

definition unit_y_d :: Vector_d where
  "unit_y_d = new_Vector_d (Num 0) (Num 1) (Num 0)"

section \<open>Renderer\<close>

text \<open>
  The renderer draws by calling methods of a 2D drawing context. The context is
  modelled by the sequence of path calls issued on it, oldest first.
\<close>

datatype call = BeginPath | MoveTo real real | LineTo real real | Fill | Stroke | ClosePath

type_synonym drawing_context = "call list"

definition line :: "drawing_context \<Rightarrow> Vector \<Rightarrow> Vector \<Rightarrow> drawing_context" where
  "line ctx start_v end_v =
     ctx @ [BeginPath, MoveTo (x start_v) (y end_v), LineTo (x end_v) (y end_v),
            Stroke, ClosePath]"

definition triangle :: "drawing_context \<Rightarrow> Vector \<Rightarrow> Vector \<Rightarrow> Vector \<Rightarrow> drawing_context" where
  "triangle ctx v1 v2 v3 =
     ctx @ [BeginPath, MoveTo (x v1) (y v1), LineTo (x v2) (y v2), LineTo (x v3) (y v3),
            Fill, Stroke, ClosePath]"

text \<open>
  Reading an array at an index that is not below its length gives \<open>undefined\<close>, and
  reading a property of \<open>undefined\<close> throws a \<open>TypeError\<close>.
\<close>

datatype error = TypeError

definition index :: "'a list \<Rightarrow> nat \<Rightarrow> 'a option" where
  "index xs i = (if i < length xs then Some (xs ! i) else None)"

function lineTo_loop :: "drawing_context \<Rightarrow> Vector list \<Rightarrow> nat \<Rightarrow> error + drawing_context" where
  "lineTo_loop ctx vertices i =
     (if i < length vertices
      then (case index vertices i of
              None \<Rightarrow> Inl TypeError
            | Some v \<Rightarrow> lineTo_loop (ctx @ [LineTo (x v) (y v)]) vertices (Suc i))
      else Inr ctx)"
  by pat_completeness auto
termination
  by (relation "measure (\<lambda>(ctx, vertices, i). length vertices - i)") auto

declare lineTo_loop.simps [simp del]

definition irregularPolygon :: "drawing_context \<Rightarrow> Vector list \<Rightarrow> error + drawing_context" where
  "irregularPolygon ctx vertices =
     (case index vertices 0 of
        None \<Rightarrow> Inl TypeError
      | Some v0 \<Rightarrow>
          (case lineTo_loop (ctx @ [BeginPath, MoveTo (x v0) (y v0)]) vertices 0 of
             Inl e \<Rightarrow> Inl e
           | Inr c \<Rightarrow> Inr (c @ [Fill, Stroke, ClosePath])))"

section \<open>Helper.map on the documented scenario\<close>

text \<open>
  C4. \<open>Helper.map(5, 0, 10, 0, 100, true)\<close> is 50; \<open>Helper.map(15, 0, 10, 0, 100, true)\<close>
  is 100, the value 150 being clamped to the target range; without clamping,
  \<open>Helper.map(15, 0, 10, 0, 100, false)\<close> is 150.
\<close>

theorem Helper_map_scenarios:
  "Helper_map (Num 5) (Num 0) (Num 10) (Num 0) (Num 100) True = Num 50
   \<and> Helper_map (Num 15) (Num 0) (Num 10) (Num 0) (Num 100) True = Num 100
   \<and> Helper_map (Num 15) (Num 0) (Num 10) (Num 0) (Num 100) False = Num 150"
  by (simp add: Helper_map_def nsub_def)

section \<open>Magnitude\<close>

lemma sum3_squares_zero:
  fixes a b c :: real
  shows "a\<^sup>2 + b\<^sup>2 + c\<^sup>2 = 0 \<longleftrightarrow> a = 0 \<and> b = 0 \<and> c = 0"
proof
  assume h: "a\<^sup>2 + b\<^sup>2 + c\<^sup>2 = 0"
  have "0 \<le> a\<^sup>2" "0 \<le> b\<^sup>2" "0 \<le> c\<^sup>2" by simp_all
  with h have "a\<^sup>2 = 0" "b\<^sup>2 = 0" "c\<^sup>2 = 0" by linarith+
  then show "a = 0 \<and> b = 0 \<and> c = 0" by simp
qed simp

lemma magnitude_zero_iff:
  "magnitude v = 0 \<longleftrightarrow> x v = 0 \<and> y v = 0 \<and> z v = 0"
  by (simp add: magnitude_def magnitudeSquared_def sum3_squares_zero)

lemma magnitudeSquared_zero_iff:
  "magnitudeSquared v = 0 \<longleftrightarrow> magnitude v = 0"
  by (simp add: magnitude_def)

lemma magnitudeSquared_nonneg: "0 \<le> magnitudeSquared v"
  by (simp add: magnitudeSquared_def)


lemma magnitude_3_0_4: "magnitude (new_Vector 3 0 4) = 5"
proof -
  have "magnitudeSquared (new_Vector 3 0 4) = 5\<^sup>2"
    by (simp add: magnitudeSquared_def new_Vector_def)
  then show ?thesis by (simp add: magnitude_def)
qed

lemma mult_zero_vector: "magnitude v = 0 \<Longrightarrow> mult v m = v"
  by (simp add: magnitude_zero_iff mult_def)

section \<open>normalise and setMag\<close>

lemma normalise_zero: "magnitude v = 0 \<Longrightarrow> normalise v = v"
  by (simp add: normalise_def)

lemma invoke_same: "m (obj h r) = obj h r \<Longrightarrow> invoke h r m = h"
  by (simp add: invoke_def)

text \<open>
  C6. \<open>setMag(m)\<close> leaves the store as a call of \<open>normalise\<close> on the receiver
  followed by a call of \<open>mult(m)\<close> on the receiver does, so the receiver's final
  components are those of \<open>mult(m)\<close> applied to the normalised vector. In particular
  a receiver of magnitude 0 is left unchanged, and so is the whole store, whatever
  \<open>m\<close> is.
\<close>

theorem setMag_normalise_then_mult:
  "setMag h this m = invoke (invoke h this normalise) this (\<lambda>v. mult v m)
   \<and> obj (setMag h this m) this = mult (normalise (obj h this)) m
   \<and> (magnitude (obj h this) = 0 \<longrightarrow> setMag h this m = h)"
proof -
  have a: "setMag h this m = invoke (invoke h this normalise) this (\<lambda>v. mult v m)"
    by (simp add: setMag_def normalise_call_def)
  have b: "obj (setMag h this m) this = mult (normalise (obj h this)) m"
    by (simp add: a invoke_def)
  have c: "setMag h this m = h" if "magnitude (obj h this) = 0"
  proof -
    have "invoke h this normalise = h"
      using that by (simp add: invoke_same normalise_zero)
    then show ?thesis
      using that by (simp add: a invoke_same mult_zero_vector)
  qed
  from a b c show ?thesis by blast
qed

text \<open>The zero vector, asked for magnitude 7.\<close>

theorem setMag_normalise_then_mult_witness:
  "magnitude (obj zero_heap 0) = 0 \<and> setMag zero_heap 0 7 = zero_heap"
proof -
  have a: "magnitude (obj zero_heap 0) = 0"
    by (simp add: zero_heap_def magnitude_zero_iff new_Vector_def)
  show ?thesis
    using a setMag_normalise_then_mult [of zero_heap 0 7] by blast
qed

section \<open>Arithmetic within the range of the doubles\<close>

lemma underflow_bound_pos: "0 < underflow_bound"
  by (simp add: underflow_bound_def)

lemma underflow_bound_less_1: "underflow_bound < 1"
  by (simp add: underflow_bound_def)

lemma overflow_bound_gt_4: "4 < overflow_bound"
  by (simp add: overflow_bound_def)

lemma clamp_not_finite:
  "clamp_overflow PInf = PInf \<and> clamp_overflow NInf = NInf \<and> clamp_overflow NaN = NaN
   \<and> clamp_range PInf = PInf \<and> clamp_range NInf = NInf \<and> clamp_range NaN = NaN"
  by (simp add: clamp_overflow_def clamp_range_def)

lemma clamp_overflow_id: "\<bar>r\<bar> < overflow_bound \<Longrightarrow> clamp_overflow (Num r) = Num r"
  by (auto simp: clamp_overflow_def)

lemma clamp_range_id:
  "underflow_bound < \<bar>r\<bar> \<Longrightarrow> \<bar>r\<bar> < overflow_bound \<Longrightarrow> clamp_range (Num r) = Num r"
  by (simp add: clamp_range_def clamp_overflow_id)

lemma clamp_overflow_moderate:
  "\<bar>r\<bar> \<le> 4 \<Longrightarrow> clamp_overflow (Num r) = Num r"
  using overflow_bound_gt_4 by (simp add: clamp_overflow_id)

lemma clamp_overflow_zero: "clamp_overflow (Num 0) = Num 0"
  by (simp add: clamp_overflow_moderate)

lemma clamp_range_zero: "clamp_range (Num 0) = Num 0"
  using underflow_bound_pos by (simp add: clamp_range_def)

lemma clamp_range_moderate:
  "1 \<le> \<bar>r\<bar> \<Longrightarrow> \<bar>r\<bar> \<le> 4 \<Longrightarrow> clamp_range (Num r) = Num r"
  using underflow_bound_less_1 by (simp add: clamp_range_def clamp_overflow_moderate)

lemma clamp_range_small:
  assumes "1 / 8 \<le> \<bar>r\<bar>" and "\<bar>r\<bar> \<le> 4"
  shows "clamp_range (Num r) = Num r"
proof -
  have "underflow_bound < 1 / 8" by (simp add: underflow_bound_def)
  with assms(1) have "underflow_bound < \<bar>r\<bar>" by linarith
  moreover have "\<bar>r\<bar> < overflow_bound" using assms(2) overflow_bound_gt_4 by linarith
  ultimately show ?thesis by (rule clamp_range_id)
qed

text \<open>The square of \<open>2^600\<close> is \<open>2^1200\<close>, beyond the largest double.\<close>

lemma dsquare_huge: "dsquare (Num huge) = PInf"
  by (simp add: dsquare_def dmul_def clamp_range_def clamp_overflow_def huge_def
      underflow_bound_def overflow_bound_def)

lemma dsquare_zero: "dsquare (Num 0) = Num 0"
  by (simp add: dsquare_def dmul_def clamp_range_zero)

lemma dmul_zero_left: "dmul (Num 0) (Num r) = Num 0"
  by (simp add: dmul_def clamp_range_zero)

lemma dmul_zero_right: "dmul (Num r) (Num 0) = Num 0"
  by (simp add: dmul_def clamp_range_zero)

lemma dadd_zero: "dadd (Num 0) (Num 0) = Num 0"
  by (simp add: dadd_def clamp_overflow_zero)

lemma dsub_zero: "dsub (Num 0) (Num 0) = Num 0"
  by (simp add: dsub_def nsub_def clamp_overflow_zero)

lemma dmul_units:
  "dmul (Num 1) (Num 1) = Num 1 \<and> dmul (Num (- 1)) (Num (- 1)) = Num 1
   \<and> dmul (Num 1) (Num (- 1)) = Num (- 1) \<and> dmul (Num (- 1)) (Num 1) = Num (- 1)"
  by (simp add: dmul_def clamp_range_moderate)

lemma dadd_units:
  "dadd (Num 1) (Num 0) = Num 1 \<and> dadd (Num (- 1)) (Num 0) = Num (- 1)"
  by (simp add: dadd_def clamp_overflow_moderate)

lemma dmul_pi: "dmul (Num pi) (Num 1) = Num pi"
proof -
  have "1 \<le> \<bar>pi\<bar>" using pi_ge_two by simp
  moreover have "\<bar>pi\<bar> \<le> 4" using pi_less_4 by simp
  ultimately show ?thesis by (simp add: dmul_def clamp_range_moderate)
qed

lemma magnitudeSquared_zero_d: "magnitudeSquared_d zero_d = Num 0"
  by (simp add: magnitudeSquared_d_def zero_d_def new_Vector_d_def dsquare_zero dadd_zero)

lemma magnitude_zero_d: "magnitude_d zero_d = Num 0"
  by (simp add: magnitude_d_def magnitudeSquared_zero_d)

lemma magnitudeSquared_big_d: "magnitudeSquared_d big_d = PInf"
  by (simp add: magnitudeSquared_d_def big_d_def new_Vector_d_def dsquare_zero dsquare_huge
      dadd_def clamp_not_finite)

lemma magnitudeSquared_units_d:
  "magnitudeSquared_d unit_x_d = Num 1 \<and> magnitudeSquared_d unit_minus_x_d = Num 1"
  by (simp add: magnitudeSquared_d_def unit_x_d_def unit_minus_x_d_def new_Vector_d_def
      dsquare_def dsquare_zero [unfolded dsquare_def] dmul_units dadd_units)


lemma square_in_range:
  assumes "in_range c"
  shows "dsquare (Num c) = Num (c\<^sup>2) \<and> 0 \<le> c\<^sup>2 \<and> c\<^sup>2 \<le> 2 ^ 1000"
proof (cases "c = 0")
  case True
  then show ?thesis by (simp add: dsquare_zero)
next
  case False
  with assms have lo: "1 / 2 ^ 500 \<le> \<bar>c\<bar>" and hi: "\<bar>c\<bar> \<le> 2 ^ 500"
    by (simp_all add: in_range_def)
  have "(1 / 2 ^ 500)\<^sup>2 \<le> \<bar>c\<bar>\<^sup>2"
    using lo by (intro power_mono) simp_all
  then have lo2: "1 / 2 ^ 1000 \<le> c\<^sup>2"
    by (simp add: power_divide)
  have "\<bar>c\<bar>\<^sup>2 \<le> (2 ^ 500)\<^sup>2"
    using hi by (intro power_mono) simp_all
  then have hi2: "c\<^sup>2 \<le> 2 ^ 1000"
    by simp
  have u: "underflow_bound < \<bar>c\<^sup>2\<bar>"
    using lo2 by (simp add: underflow_bound_def)
  have o: "\<bar>c\<^sup>2\<bar> < overflow_bound"
    using hi2 by (simp add: overflow_bound_def)
  have "dsquare (Num c) = Num (c\<^sup>2)"
    using clamp_range_id [OF u o] by (simp add: dsquare_def dmul_def power2_eq_square)
  with hi2 show ?thesis by simp
qed

lemma magnitude_d_in_range:
  assumes "in_range (x v)" and "in_range (y v)" and "in_range (z v)"
  shows "magnitude_d (as_double v) = Num (magnitude v)"
proof -
  note a = square_in_range [OF assms(1)]
  note b = square_in_range [OF assms(2)]
  note c = square_in_range [OF assms(3)]
  have s1: "\<bar>(x v)\<^sup>2 + (y v)\<^sup>2\<bar> < overflow_bound"
    using a b by (simp add: overflow_bound_def)
  have s2: "\<bar>(x v)\<^sup>2 + (y v)\<^sup>2 + (z v)\<^sup>2\<bar> < overflow_bound"
    using a b c by (simp add: overflow_bound_def)
  have "magnitudeSquared_d (as_double v) = Num (magnitudeSquared v)"
    using a b c
    by (simp add: magnitudeSquared_d_def as_double_def new_Vector_d_def dadd_def
        clamp_overflow_id [OF s1] clamp_overflow_id [OF s2] magnitudeSquared_def)
  then show ?thesis
    by (simp add: magnitude_d_def magnitude_def magnitudeSquared_nonneg not_less)
qed

section \<open>normalise on a large vector\<close>

text \<open>On \<open>(3, 0, 4)\<close>, of magnitude 5, \<open>normalise\<close> gives \<open>(3/5, 0, 4/5)\<close>.\<close>

lemma normalise_3_0_4:
  "normalise_d (as_double (new_Vector 3 0 4)) = as_double (new_Vector (3 / 5) 0 (4 / 5))"
proof -
  have r: "in_range 3" "in_range 0" "in_range 4"
    by (simp_all add: in_range_def)
  have m: "magnitude_d (as_double (new_Vector 3 0 4)) = Num 5"
    using magnitude_d_in_range [of "new_Vector 3 0 4"] r
    by (simp add: magnitude_3_0_4) (simp add: new_Vector_def)
  have d: "ddiv (Num 1) (Num 5) = Num (1 / 5)"
    by (simp add: ddiv_def clamp_range_small)
  have p: "dmul (Num 3) (Num (1 / 5)) = Num (3 / 5)" "dmul (Num 4) (Num (1 / 5)) = Num (4 / 5)"
    by (simp_all add: dmul_def clamp_range_small)
  show ?thesis
    by (simp add: normalise_d_def m d mult_d_def Let_def)
      (simp add: as_double_def new_Vector_d_def new_Vector_def p dmul_zero_left)
qed

lemma magnitude_normalised_3_0_4:
  "magnitude_d (normalise_d (as_double (new_Vector 3 0 4))) = Num 1"
proof -
  have r: "in_range (3 / 5)" "in_range 0" "in_range (4 / 5)"
    by (simp_all add: in_range_def)
  have "magnitude (new_Vector (3 / 5) 0 (4 / 5)) = 1"
  proof -
    have "magnitudeSquared (new_Vector (3 / 5) 0 (4 / 5)) = 1"
      by (simp add: magnitudeSquared_def new_Vector_def power2_eq_square)
    then show ?thesis by (simp add: magnitude_def)
  qed
  then show ?thesis
    using magnitude_d_in_range [of "new_Vector (3 / 5) 0 (4 / 5)"] r
    by (simp add: normalise_3_0_4) (simp add: new_Vector_def)
qed

text \<open>
  C5. \<open>normalise\<close> is to scale a receiver of nonzero magnitude to magnitude 1, as it
  does on \<open>(3, 0, 4)\<close>. On \<open>(2^600, 0, 0)\<close> the squared magnitude overflows:
  \<open>magnitude()\<close> is \<open>+\<infinity>\<close>, which is not zero, its inverse is 0, and
  \<open>normalise\<close> leaves the zero vector, of magnitude 0 and not 1.
\<close>

theorem normalise_overflow:
  "magnitude_d big_d = PInf
   \<and> normalise_d big_d = zero_d
   \<and> magnitude_d (normalise_d big_d) = Num 0
   \<and> magnitude_d (normalise_d (as_double (new_Vector 3 0 4))) = Num 1"
proof -
  have m: "magnitude_d big_d = PInf"
    by (simp add: magnitude_d_def magnitudeSquared_big_d)
  have "ddiv (Num 1) PInf = Num 0"
    by (simp add: ddiv_def clamp_range_zero)
  then have n: "normalise_d big_d = zero_d"
    by (simp add: normalise_d_def m mult_d_def Let_def)
      (simp add: big_d_def zero_d_def new_Vector_d_def dmul_zero_right)
  from m n show ?thesis by (simp add: magnitude_zero_d magnitude_normalised_3_0_4)
qed

section \<open>angleBetween\<close>

lemma z_zero_d: "z_d zero_d = Num 0"
  by (simp add: zero_d_def new_Vector_d_def)

lemma angleBetween_zero_unit:
  "angleBetween_d zero_d unit_x_d = NaN \<and> angleBetween_d unit_x_d zero_d = NaN"
  by (simp add: angleBetween_d_def magnitudeSquared_zero_d magnitudeSquared_units_d
      dmul_zero_left dmul_zero_right)

text \<open>
  C7. \<open>angleBetween\<close> is to return \<open>NaN\<close> when one of the two vectors has magnitude
  zero, as it does with the zero vector and \<open>(1, 0, 0)\<close>. With the zero vector and
  \<open>(2^600, 0, 0)\<close> the product of the squared magnitudes is \<open>0 * \<infinity>\<close>, that is
  \<open>NaN\<close>, the guard \<open>magSqMult === 0\<close> does not fire, and the call returns the
  angle 0, in both orders.
\<close>

theorem angleBetween_zero_against_big:
  "magnitude_d zero_d = Num 0
   \<and> angleBetween_d zero_d big_d = Num 0
   \<and> angleBetween_d big_d zero_d = Num 0
   \<and> angleBetween_d zero_d unit_x_d = NaN
   \<and> angleBetween_d unit_x_d zero_d = NaN"
proof -
  have c1: "cross_d zero_d big_d = zero_d"
    by (simp add: cross_d_def zero_d_def big_d_def new_Vector_d_def dmul_zero_left
        dmul_zero_right dsub_zero)
  have c2: "cross_d big_d zero_d = zero_d"
    by (simp add: cross_d_def zero_d_def big_d_def new_Vector_d_def dmul_zero_left
        dmul_zero_right dsub_zero)
  have d1: "dot_d zero_d big_d = Num 0"
    by (simp add: dot_d_def zero_d_def big_d_def new_Vector_d_def dmul_zero_left
        dmul_zero_right dadd_zero)
  have d2: "dot_d big_d zero_d = Num 0"
    by (simp add: dot_d_def zero_d_def big_d_def new_Vector_d_def dmul_zero_left
        dmul_zero_right dadd_zero)
  have s: "dmul (Num (Math_atan2 0 0)) (Num (Math_sign 1)) = Num 0"
    by (simp add: Math_atan2_def Math_sign_def dmul_zero_left)
  have p1: "dmul (Num 0) PInf = NaN" and p2: "dmul PInf (Num 0) = NaN"
    by (simp_all add: dmul_def clamp_not_finite)
  have a1: "angleBetween_d zero_d big_d = Num 0"
    by (simp add: angleBetween_d_def magnitudeSquared_zero_d magnitudeSquared_big_d p1
        c1 d1 magnitude_zero_d z_zero_d s)
  have a2: "angleBetween_d big_d zero_d = Num 0"
    by (simp add: angleBetween_d_def magnitudeSquared_zero_d magnitudeSquared_big_d p2
        c2 d2 magnitude_zero_d z_zero_d s)
  from a1 a2 show ?thesis by (simp add: magnitude_zero_d angleBetween_zero_unit)
qed

lemma magnitudeSquared_unit_y_d: "magnitudeSquared_d unit_y_d = Num 1"
proof -
  have "dadd (Num 0) (Num 1) = Num 1"
    by (simp add: dadd_def clamp_overflow_moderate)
  then show ?thesis
    by (simp add: magnitudeSquared_d_def unit_y_d_def new_Vector_d_def
        dsquare_def dsquare_zero [unfolded dsquare_def] dmul_units dadd_units)
qed

lemma dmul_half_pi:
  "dmul (Num (pi / 2)) (Num 1) = Num (pi / 2)
   \<and> dmul (Num (pi / 2)) (Num (- 1)) = Num (- (pi / 2))"
proof -
  have "1 / 8 \<le> \<bar>pi / 2\<bar>" using pi_ge_two by simp
  moreover have "\<bar>pi / 2\<bar> \<le> 4" using pi_less_4 by simp
  ultimately show ?thesis by (simp add: dmul_def clamp_range_small)
qed

text \<open>From the first axis to the second the angle is \<open>\<pi>/2\<close>, and back \<open>-\<pi>/2\<close>.\<close>

lemma angleBetween_axes:
  "angleBetween_d unit_x_d unit_y_d = Num (pi / 2)
   \<and> angleBetween_d unit_y_d unit_x_d = Num (- (pi / 2))"
proof -
  have s: "dsub (Num 1) (Num 0) = Num 1" "dsub (Num 0) (Num 1) = Num (- 1)"
    by (simp_all add: dsub_def nsub_def clamp_overflow_moderate)
  have c1: "cross_d unit_x_d unit_y_d = new_Vector_d (Num 0) (Num 0) (Num 1)"
    by (simp add: cross_d_def unit_x_d_def unit_y_d_def new_Vector_d_def
        dmul_zero_left dmul_zero_right dmul_units dsub_zero s)
  have c2: "cross_d unit_y_d unit_x_d = new_Vector_d (Num 0) (Num 0) (Num (- 1))"
    by (simp add: cross_d_def unit_x_d_def unit_y_d_def new_Vector_d_def
        dmul_zero_left dmul_zero_right dmul_units dsub_zero s)
  have a: "dadd (Num 0) (Num 1) = Num 1"
    by (simp add: dadd_def clamp_overflow_moderate)
  have m1: "magnitude_d (new_Vector_d (Num 0) (Num 0) (Num 1)) = Num 1"
    by (simp add: magnitude_d_def magnitudeSquared_d_def new_Vector_d_def
        dsquare_def dsquare_zero [unfolded dsquare_def] dmul_units dadd_zero a)
  have m2: "magnitude_d (new_Vector_d (Num 0) (Num 0) (Num (- 1))) = Num 1"
    by (simp add: magnitude_d_def magnitudeSquared_d_def new_Vector_d_def
        dsquare_def dsquare_zero [unfolded dsquare_def] dmul_units dadd_zero a)
  have d1: "dot_d unit_x_d unit_y_d = Num 0"
    by (simp add: dot_d_def unit_x_d_def unit_y_d_def new_Vector_d_def
        dmul_zero_left dmul_zero_right dadd_zero)
  have d2: "dot_d unit_y_d unit_x_d = Num 0"
    by (simp add: dot_d_def unit_x_d_def unit_y_d_def new_Vector_d_def
        dmul_zero_left dmul_zero_right dadd_zero)
  have t: "Math_atan2 1 0 = pi / 2"
    by (simp add: Math_atan2_def)
  have sg: "Math_sign 1 = 1" "Math_sign (- 1) = - 1"
    by (simp_all add: Math_sign_def)
  have a1: "angleBetween_d unit_x_d unit_y_d = Num (pi / 2)"
    by (simp add: angleBetween_d_def magnitudeSquared_units_d magnitudeSquared_unit_y_d
        dmul_units c1 m1 d1)
      (simp add: new_Vector_d_def t sg dmul_half_pi)
  have a2: "angleBetween_d unit_y_d unit_x_d = Num (- (pi / 2))"
    by (simp add: angleBetween_d_def magnitudeSquared_units_d magnitudeSquared_unit_y_d
        dmul_units c2 m2 d2)
      (simp add: new_Vector_d_def t sg dmul_half_pi)
  from a1 a2 show ?thesis by simp
qed

text \<open>
  C3. \<open>angleBetween\<close> is to be antisymmetric on vectors of nonzero magnitude, as it is
  on the unit vectors of the two axes. For the unit vectors \<open>(1, 0)\<close> and \<open>(-1, 0)\<close>
  the cross product is zero, the sign is that of 1 in both orders, and both calls
  return \<open>\<pi>\<close>, which is not its own negation.
\<close>

theorem angleBetween_opposite:
  "angleBetween_d unit_x_d unit_minus_x_d = Num pi
   \<and> angleBetween_d unit_minus_x_d unit_x_d = Num pi
   \<and> angleBetween_d unit_x_d unit_minus_x_d
       \<noteq> nneg (angleBetween_d unit_minus_x_d unit_x_d)
   \<and> angleBetween_d unit_x_d unit_y_d = nneg (angleBetween_d unit_y_d unit_x_d)"
proof -
  have c1: "cross_d unit_x_d unit_minus_x_d = zero_d"
    by (simp add: cross_d_def unit_x_d_def unit_minus_x_d_def zero_d_def new_Vector_d_def
        dmul_zero_left dmul_zero_right dsub_zero)
  have c2: "cross_d unit_minus_x_d unit_x_d = zero_d"
    by (simp add: cross_d_def unit_x_d_def unit_minus_x_d_def zero_d_def new_Vector_d_def
        dmul_zero_left dmul_zero_right dsub_zero)
  have d1: "dot_d unit_x_d unit_minus_x_d = Num (- 1)"
    by (simp add: dot_d_def unit_x_d_def unit_minus_x_d_def new_Vector_d_def
        dmul_units dmul_zero_left dadd_units)
  have d2: "dot_d unit_minus_x_d unit_x_d = Num (- 1)"
    by (simp add: dot_d_def unit_x_d_def unit_minus_x_d_def new_Vector_d_def
        dmul_units dmul_zero_left dadd_units)
  have t: "Math_atan2 0 (- 1) = pi" and s: "Math_sign 1 = 1"
    by (simp_all add: Math_atan2_def Math_sign_def)
  have a1: "angleBetween_d unit_x_d unit_minus_x_d = Num pi"
    by (simp add: angleBetween_d_def magnitudeSquared_units_d dmul_units c1 d1
        magnitude_zero_d z_zero_d t s dmul_pi)
  have a2: "angleBetween_d unit_minus_x_d unit_x_d = Num pi"
    by (simp add: angleBetween_d_def magnitudeSquared_units_d dmul_units c2 d2
        magnitude_zero_d z_zero_d t s dmul_pi)
  have "pi \<noteq> - pi" using pi_gt_zero by linarith
  with a1 a2 show ?thesis by (simp add: angleBetween_axes)
qed

section \<open>Partial arguments of add, sub and dot\<close>

lemma or_zero_present: "or_zero c = present_or_zero c"
  by (cases c) simp_all

text \<open>
  C8. \<open>add\<close>, \<open>sub\<close> and \<open>dot\<close> take a component of their argument that is
  missing or \<open>NaN\<close> for 0: with a partial argument each of them gives what it gives
  with the full vector that has 0 in place of the missing components. For instance
  adding \<open>{x: 5}\<close> is adding \<open>new Vector(5, 0, 0)\<close>.
\<close>

theorem missing_components_as_zero:
  "add v p = add v (as_arg (completed p))
   \<and> sub v p = sub v (as_arg (completed p))
   \<and> dot v p = dot v (as_arg (completed p))
   \<and> add v \<lparr>px = Number 5, py = Undefined, pz = Undefined\<rparr>
       = add v (as_arg (new_Vector 5 0 0))"
  by (simp add: add_def sub_def dot_def as_arg_def completed_def new_Vector_def
      or_zero_present)

section \<open>copy\<close>

text \<open>
  C9. \<open>copy\<close> returns a reference to a new object, different from the receiver, with
  the receiver's three components, so that \<open>equals\<close> holds between the copy and the
  receiver; the receiver is unchanged by the copying, and it is unchanged by any
  in-place method \<open>m\<close> called on the copy afterwards, \<open>normalise\<close> and
  \<open>setMag\<close> included.
\<close>

theorem copy_independent:
  assumes "this < allocated h"
  shows "case copy h this of (c, h') \<Rightarrow>
           c \<noteq> this
           \<and> x (obj h' c) = x (obj h this) \<and> y (obj h' c) = y (obj h this)
           \<and> z (obj h' c) = z (obj h this)
           \<and> equals (obj h' c) (obj h' this)
           \<and> obj h' this = obj h this
           \<and> obj (invoke h' c m) this = obj h this
           \<and> obj (snd (normalise_call h' c)) this = obj h this
           \<and> obj (setMag h' c k) this = obj h this"
  using assms
  by (simp add: copy_def alloc_def invoke_def equals_def new_Vector_def
      normalise_call_def setMag_def)

text \<open>
  The vector \<open>(1, 2, 3)\<close> at reference 0: its copy is at reference 1, and doubling
  the copy leaves \<open>(1, 2, 3)\<close> at reference 0.
\<close>

theorem copy_independent_witness:
  "(0::nat) < allocated one_heap
   \<and> fst (copy one_heap 0) = 1
   \<and> equals (obj (snd (copy one_heap 0)) 1) (obj (snd (copy one_heap 0)) 0)
   \<and> obj (invoke (snd (copy one_heap 0)) 1 (\<lambda>v. mult v 2)) 1 = new_Vector 2 4 6
   \<and> obj (invoke (snd (copy one_heap 0)) 1 (\<lambda>v. mult v 2)) 0 = new_Vector 1 2 3"
proof -
  have a: "(0::nat) < allocated one_heap"
    by (simp add: one_heap_def)
  show ?thesis
    using a copy_independent [OF a, of "\<lambda>v. mult v 2"]
    by (simp add: copy_def alloc_def invoke_def one_heap_def mult_def new_Vector_def
        equals_def)
qed

section \<open>rotate\<close>











text \<open>The zero vector has heading 0 and keeps it, whatever the angle.\<close>

lemma rotate_zero_vector:
  "heading (new_Vector 0 0 0) = 0 \<and> rotate_v (new_Vector 0 0 0) a = new_Vector 0 0 0"
proof -
  have "magnitude (new_Vector 0 0 0) = 0"
    by (simp add: magnitude_zero_iff new_Vector_def)
  then show ?thesis
    by (simp add: rotate_v_def heading_def Math_atan2_def) (simp add: new_Vector_def)
qed











section \<open>Renderer.line\<close>

text \<open>
  C1. A segment from \<open>start\<close> to \<open>end\<close> starts with \<open>moveTo(start.x, start.y)\<close>.
  On the segment of the demo sketch, from \<open>(30, 75)\<close> to \<open>(58, 20)\<close>, \<open>line\<close> issues
  \<open>moveTo(30, 20)\<close>, with the second coordinate of the end point, and then
  \<open>lineTo(58, 20)\<close>: no \<open>moveTo(30, 75)\<close> is issued.
\<close>

theorem line_moveTo_end_y:
  "line [] (new_Vector2 30 75) (new_Vector2 58 20)
     = [BeginPath, MoveTo 30 20, LineTo 58 20, Stroke, ClosePath]
   \<and> MoveTo 30 75 \<notin> set (line [] (new_Vector2 30 75) (new_Vector2 58 20))"
  by (simp add: line_def new_Vector2_def new_Vector_def)

text \<open>\<open>triangle\<close>, next to it, moves to both coordinates of its first point.\<close>

lemma triangle_moveTo:
  "triangle [] (new_Vector2 30 75) (new_Vector2 58 20) (new_Vector2 0 0) ! 1 = MoveTo 30 75"
  by (simp add: triangle_def new_Vector2_def new_Vector_def)

section \<open>Renderer.irregularPolygon\<close>

text \<open>The loop reads only indices below the length and issues one \<open>lineTo\<close> per vertex.\<close>

lemma lineTo_loop_total:
  "i \<le> length vertices \<Longrightarrow>
   lineTo_loop ctx vertices i = Inr (ctx @ map (\<lambda>v. LineTo (x v) (y v)) (drop i vertices))"
proof (induction ctx vertices i rule: lineTo_loop.induct)
  case (1 ctx vertices i)
  show ?case
  proof (cases "i < length vertices")
    case True
    then have ix: "index vertices i = Some (vertices ! i)"
      by (simp add: index_def)
    have "lineTo_loop ctx vertices i
            = lineTo_loop (ctx @ [LineTo (x (vertices ! i)) (y (vertices ! i))]) vertices (Suc i)"
      using True ix by (subst lineTo_loop.simps) simp
    also have "\<dots> = Inr ((ctx @ [LineTo (x (vertices ! i)) (y (vertices ! i))])
                         @ map (\<lambda>v. LineTo (x v) (y v)) (drop (Suc i) vertices))"
      using True ix by (intro "1.IH") simp_all
    also have "\<dots> = Inr (ctx @ map (\<lambda>v. LineTo (x v) (y v)) (drop i vertices))"
      using True by (simp add: Cons_nth_drop_Suc [symmetric])
    finally show ?thesis .
  next
    case False
    with "1.prems" have "i = length vertices" by simp
    then show ?thesis by (subst lineTo_loop.simps) simp
  qed
qed

text \<open>
  C10. \<open>irregularPolygon\<close> reads \<open>vertices[0]\<close> before its loop. On a nonempty list
  every index the function reads is in bounds and the call completes, with one
  \<open>moveTo\<close> to the first vertex and one \<open>lineTo\<close> per vertex; on the empty list the
  first read, at index 0, is out of bounds and the call fails there.
\<close>

theorem irregularPolygon_in_bounds:
  "(vertices \<noteq> [] \<longrightarrow>
      (\<forall>i < length vertices. index vertices i = Some (vertices ! i))
      \<and> irregularPolygon ctx vertices
          = Inr (ctx @ [BeginPath, MoveTo (x (vertices ! 0)) (y (vertices ! 0))]
                   @ map (\<lambda>v. LineTo (x v) (y v)) vertices @ [Fill, Stroke, ClosePath]))
   \<and> index ([] :: Vector list) 0 = None
   \<and> irregularPolygon ctx [] = Inl TypeError"
  by (simp add: irregularPolygon_def index_def lineTo_loop_total)

text \<open>A polygon of two vertices.\<close>

theorem irregularPolygon_in_bounds_witness:
  "[new_Vector2 1 2, new_Vector2 3 4] \<noteq> []
   \<and> irregularPolygon [] [new_Vector2 1 2, new_Vector2 3 4]
       = Inr [BeginPath, MoveTo 1 2, LineTo 1 2, LineTo 3 4, Fill, Stroke, ClosePath]"
proof -
  have a: "[new_Vector2 1 2, new_Vector2 3 4] \<noteq> []" by simp
  show ?thesis
    using a irregularPolygon_in_bounds [of "[new_Vector2 1 2, new_Vector2 3 4]" "[]"]
    by (simp add: new_Vector2_def new_Vector_def)
qed

end
